theory Spec2Isabelle
  imports Complex_Main
begin

section \<open>Python values and exceptions\<close>

text \<open>
  The two utility modules of the viewer, \<^verbatim>\<open>src/utils/database_utils.py\<close> and
  \<^verbatim>\<open>src/utils/time_utils.py\<close>, are embedded as HOL functions. A Python function that
  can raise returns \<open>py_error + 'a\<close>, with \<open>Inl\<close> for the exception; a
  \<^verbatim>\<open>try ... except Exception\<close> is a case distinction on that sum.

  Python strings are kept as their UTF-8 bytes, so the Japanese prefix of the diagnostic
  string is a list of bytes above 127. An exception carries its message, in the wording
  of CPython and SQLite on Linux; only the diagnostic string of \<^verbatim>\<open>convert_timestamp\<close>
  ever shows it.
\<close>

datatype py_error =
    OperationalError string
  | DatabaseError string
  | IndexError string
  | ValueError string
  | OverflowError string

fun error_message :: "py_error \<Rightarrow> string" where
  "error_message (OperationalError m) = m"
| "error_message (DatabaseError m) = m"
| "error_message (IndexError m) = m"
| "error_message (ValueError m) = m"
| "error_message (OverflowError m) = m"

section \<open>The database as the cursor sees it\<close>

text \<open>
  A cell fetched by \<^verbatim>\<open>sqlite3\<close> is \<^verbatim>\<open>None\<close>, an \<^verbatim>\<open>int\<close>, a \<^verbatim>\<open>float\<close>, a \<^verbatim>\<open>str\<close> or
  \<^verbatim>\<open>bytes\<close>. A finite float is a rational number; infinities are not represented.
\<close>

datatype sql_value =
    SqlNull
  | SqlInt int
  | SqlReal rat
  | SqlText string
  | SqlBlob "nat list"

type_synonym row = "sql_value list"

text \<open>One line of \<^verbatim>\<open>PRAGMA table_info\<close>: \<^verbatim>\<open>(cid, name, type, notnull, dflt_value, pk)\<close>.\<close>

record column_info =
  cid :: int
  col_name :: string
  col_type :: string
  notnull :: int
  dflt_value :: "string option"
  pk :: int

record table =
  table_info :: "column_info list"
  table_rows :: "row list"

text \<open>
  The catalog maps a table name to its table. The source splices the name into the SQL
  text with an f-string; the model takes the name as a catalog key.
\<close>

type_synonym database = "string \<rightharpoonup> table"

text \<open>
  \<^verbatim>\<open>PRAGMA table_info(t)\<close> yields no rows for a table that does not exist; it does not
  raise.
\<close>

definition pragma_table_info :: "database \<Rightarrow> string \<Rightarrow> column_info list" where
  "pragma_table_info db t = (case db t of None \<Rightarrow> [] | Some tb \<Rightarrow> table_info tb)"

text \<open>
  \<^verbatim>\<open>LIMIT n\<close> keeps the first \<open>n\<close> rows; a negative \<open>n\<close> means no upper bound in SQLite.
\<close>

definition sql_limit :: "int \<Rightarrow> row list \<Rightarrow> row list" where
  "sql_limit n rs = (if n < 0 then rs else take (nat n) rs)"

text \<open>\<^verbatim>\<open>SELECT * FROM t\<close>, with an optional \<^verbatim>\<open>LIMIT\<close>; an absent table raises.\<close>

definition select_all :: "database \<Rightarrow> string \<Rightarrow> int option \<Rightarrow> py_error + row list" where
  "select_all db t bound =
     (case db t of
        None \<Rightarrow> Inl (OperationalError (''no such table: '' @ t))
      | Some tb \<Rightarrow>
          Inr (case bound of None \<Rightarrow> table_rows tb | Some n \<Rightarrow> sql_limit n (table_rows tb)))"

subsection \<open>\<^verbatim>\<open>get_wal_data\<close>\<close>

text \<open>
  What lies at a path: a file \<^verbatim>\<open>sqlite3\<close> cannot read as a database, or one it can.
  A path outside the domain of the file system does not exist.
\<close>

datatype db_file = Unreadable | Readable database

type_synonym filesystem = "string \<rightharpoonup> db_file"

definition get_wal_data :: "filesystem \<Rightarrow> string \<Rightarrow> string \<Rightarrow> row list" where
  "get_wal_data fs db_path table_name =
     (let wal_path = db_path @ ''-wal'' in
      case fs wal_path of
        None \<Rightarrow> []
      | Some f \<Rightarrow>
          (case (case f of
                   Unreadable \<Rightarrow> Inl (DatabaseError ''file is not a database'')
                 | Readable wal \<Rightarrow> select_all wal table_name None) of
             Inl e \<Rightarrow> []
           | Inr wal_data \<Rightarrow> wal_data))"

subsection \<open>Primary-key tuples\<close>

text \<open>
  Python compares and hashes \<^verbatim>\<open>1\<close> and \<^verbatim>\<open>1.0\<close> as equal, so a tuple holding one is the
  same set element as the tuple holding the other. A key is therefore stored with every
  integral float replaced by its integer; on such canonical keys Python's equality is
  structural equality.
\<close>

fun canon :: "sql_value \<Rightarrow> sql_value" where
  "canon (SqlReal r) = (if of_int \<lfloor>r\<rfloor> = r then SqlInt \<lfloor>r\<rfloor> else SqlReal r)"
| "canon v = v"

text \<open>\<^verbatim>\<open>row[idx]\<close> raises \<^verbatim>\<open>IndexError\<close> past the end of the row.\<close>

definition row_get :: "row \<Rightarrow> nat \<Rightarrow> py_error + sql_value" where
  "row_get r idx =
     (if idx < length r then Inr (r ! idx) else Inl (IndexError ''tuple index out of range''))"

text \<open>\<^verbatim>\<open>tuple(row[idx] for idx in pk_indices)\<close>\<close>

fun key_of :: "row \<Rightarrow> nat list \<Rightarrow> py_error + sql_value list" where
  "key_of r [] = Inr []"
| "key_of r (idx # idxs) =
     (case row_get r idx of
        Inl e \<Rightarrow> Inl e
      | Inr v \<Rightarrow> (case key_of r idxs of Inl e \<Rightarrow> Inl e | Inr k \<Rightarrow> Inr (canon v # k)))"

text \<open>
  \<^verbatim>\<open>wal_only_keys\<close> holds primary-key tuples when the table has a primary key and row
  positions when it has none.
\<close>

datatype wal_key = KeyTuple "sql_value list" | RowIndex nat

text \<open>\<^verbatim>\<open>columns.index(pk_col)\<close>: the first position, \<^verbatim>\<open>ValueError\<close> when there is none.\<close>

fun list_index :: "string list \<Rightarrow> string \<Rightarrow> py_error + nat" where
  "list_index [] x = Inl (ValueError ''x is not in list'')"
| "list_index (c # cs) x =
     (if c = x then Inr 0
      else (case list_index cs x of Inl e \<Rightarrow> Inl e | Inr i \<Rightarrow> Inr (Suc i)))"

fun pk_indices_of :: "string list \<Rightarrow> string list \<Rightarrow> py_error + nat list" where
  "pk_indices_of columns [] = Inr []"
| "pk_indices_of columns (p # ps) =
     (case list_index columns p of
        Inl e \<Rightarrow> Inl e
      | Inr i \<Rightarrow> (case pk_indices_of columns ps of Inl e \<Rightarrow> Inl e | Inr js \<Rightarrow> Inr (i # js)))"

text \<open>The loop over the main rows that fills \<^verbatim>\<open>db_keys\<close>.\<close>

fun collect_db_keys ::
  "nat list \<Rightarrow> row list \<Rightarrow> sql_value list set \<Rightarrow> py_error + sql_value list set" where
  "collect_db_keys idxs [] db_keys = Inr db_keys"
| "collect_db_keys idxs (r # rs) db_keys =
     (case key_of r idxs of
        Inl e \<Rightarrow> Inl e
      | Inr k \<Rightarrow> collect_db_keys idxs rs (insert k db_keys))"

text \<open>
  The loop over the WAL rows. Its state is the pair of \<^verbatim>\<open>db_data\<close>, which grows at the
  end, and \<^verbatim>\<open>wal_only_keys\<close>; \<^verbatim>\<open>db_keys\<close> is only read.
\<close>

fun merge_wal ::
  "nat list \<Rightarrow> sql_value list set \<Rightarrow> row list \<Rightarrow> row list \<times> wal_key set \<Rightarrow>
   py_error + row list \<times> wal_key set" where
  "merge_wal idxs db_keys [] st = Inr st"
| "merge_wal idxs db_keys (r # rs) (db_data, wal_only_keys) =
     (case key_of r idxs of
        Inl e \<Rightarrow> Inl e
      | Inr k \<Rightarrow>
          if k \<notin> db_keys
          then merge_wal idxs db_keys rs (db_data @ [r], insert (KeyTuple k) wal_only_keys)
          else merge_wal idxs db_keys rs (db_data, wal_only_keys))"

subsection \<open>\<^verbatim>\<open>get_table_contents_with_wal\<close>\<close>

type_synonym contents = "string list \<times> row list \<times> wal_key set"

text \<open>\<^verbatim>\<open>columns\<close> and \<^verbatim>\<open>pk_columns\<close>; \<^verbatim>\<open>col[5]\<close> is truthy when the flag is not \<open>0\<close>.\<close>

definition table_columns :: "database \<Rightarrow> string \<Rightarrow> string list" where
  "table_columns cursor table_name = map col_name (pragma_table_info cursor table_name)"

definition table_pk_columns :: "database \<Rightarrow> string \<Rightarrow> string list" where
  "table_pk_columns cursor table_name =
     map col_name (filter (\<lambda>col. pk col \<noteq> 0) (pragma_table_info cursor table_name))"

text \<open>
  The fetch of the main rows. \<^verbatim>\<open>if limit:\<close> tests the limit for truthiness, so both
  \<^verbatim>\<open>None\<close> and \<^verbatim>\<open>0\<close> take the branch without \<^verbatim>\<open>LIMIT\<close>.
\<close>

definition fetch_main :: "database \<Rightarrow> string \<Rightarrow> int option \<Rightarrow> py_error + row list" where
  "fetch_main cursor table_name limit =
     (if limit \<noteq> None \<and> limit \<noteq> Some 0
      then select_all cursor table_name limit
      else select_all cursor table_name None)"

text \<open>The body of the \<^verbatim>\<open>try\<close> block.\<close>

definition contents_try ::
  "database \<Rightarrow> filesystem \<Rightarrow> string \<Rightarrow> string \<Rightarrow> int option \<Rightarrow> py_error + contents" where
  "contents_try cursor fs table_name db_path limit =
     (let columns = table_columns cursor table_name;
          pk_columns = table_pk_columns cursor table_name
      in case fetch_main cursor table_name limit of
           Inl e \<Rightarrow> Inl e
         | Inr db_data \<Rightarrow>
             (let wal_data = get_wal_data fs db_path table_name in
              if pk_columns \<noteq> []
              then (case pk_indices_of columns pk_columns of
                      Inl e \<Rightarrow> Inl e
                    | Inr pk_indices \<Rightarrow>
                        (case collect_db_keys pk_indices db_data {} of
                           Inl e \<Rightarrow> Inl e
                         | Inr db_keys \<Rightarrow>
                             (case merge_wal pk_indices db_keys wal_data (db_data, {}) of
                                Inl e \<Rightarrow> Inl e
                              | Inr (rows, wal_only_keys) \<Rightarrow> Inr (columns, rows, wal_only_keys))))
              else Inr (columns, db_data @ wal_data,
                        RowIndex ` {length (db_data @ wal_data) - length wal_data ..<
                                    length (db_data @ wal_data)})))"

text \<open>
  The whole function: \<^verbatim>\<open>except Exception\<close> prints the error and returns three empty
  containers, so the caller always gets a normal result. The result type still has the
  \<open>Inl\<close> side, to say what a raise would look like.
\<close>

definition get_table_contents_with_wal ::
  "database \<Rightarrow> filesystem \<Rightarrow> string \<Rightarrow> string \<Rightarrow> int option \<Rightarrow> py_error + contents" where
  "get_table_contents_with_wal cursor fs table_name db_path limit =
     (case contents_try cursor fs table_name db_path limit of
        Inl e \<Rightarrow> Inr ([], [], {})
      | Inr res \<Rightarrow> Inr res)"

section \<open>Timestamps\<close>

text \<open>
  The value handed to \<^verbatim>\<open>convert_timestamp\<close> is an \<^verbatim>\<open>int\<close> (Python's unbounded integer)
  or something that is not a number: \<^verbatim>\<open>None\<close> or a \<^verbatim>\<open>str\<close>. Float arguments are outside
  this model.
\<close>

datatype py_value = PyNone | PyInt int | PyStr string

subsection \<open>\<^verbatim>\<open>str\<close> and \<^verbatim>\<open>int\<close>\<close>

definition digit_char :: "nat \<Rightarrow> char" where
  "digit_char d = ''0123456789'' ! d"

text \<open>The decimal digits of a number that is not negative.\<close>

function digits :: "int \<Rightarrow> string" where
  "digits n =
     (if n < 10 then [digit_char (nat n)] else digits (n div 10) @ [digit_char (nat (n mod 10))])"
  by pat_completeness auto
termination
  by (relation "measure nat") auto

declare digits.simps [simp del]

text \<open>The decimal form of an integer.\<close>

definition int_str :: "int \<Rightarrow> string" where
  "int_str i = (if i < 0 then CHR ''-'' # digits (- i) else digits i)"

text \<open>
  \<^verbatim>\<open>str(i)\<close> for an integer. The viewer needs CPython 3.12 or later (it has an f-string
  with a backslash in a replacement field), and there the conversion between \<^verbatim>\<open>int\<close> and
  \<^verbatim>\<open>str\<close> raises \<^verbatim>\<open>ValueError\<close> for more than 4300 digits, in both directions.
\<close>

definition max_str_digits :: nat where
  "max_str_digits = 4300"

definition digit_limit_message :: string where
  "digit_limit_message =
     ''Exceeds the limit (4300 digits) for integer string conversion; '' @
     ''use sys.set_int_max_str_digits() to increase the limit''"

definition str_int :: "int \<Rightarrow> py_error + string" where
  "str_int i =
     (if 10 ^ max_str_digits \<le> \<bar>i\<bar>
      then Inl (ValueError digit_limit_message)
      else Inr (int_str i))"

text \<open>\<^verbatim>\<open>str(value)\<close>\<close>

fun py_str :: "py_value \<Rightarrow> py_error + string" where
  "py_str PyNone = Inr ''None''"
| "py_str (PyInt i) = str_int i"
| "py_str (PyStr s) = Inr s"

text \<open>
  \<^verbatim>\<open>.replace(m, '')\<close> for the decorative arrow U+27A1, three bytes in UTF-8: one pass from
  the left that drops every occurrence.
\<close>

definition marker :: string where
  "marker = [CHR 0xE2, CHR 0x9E, CHR 0xA1]"

fun remove_marker :: "string \<Rightarrow> string" where
  "remove_marker (a # b # c # s) =
     (if [a, b, c] = marker then remove_marker s else a # remove_marker (b # c # s))"
| "remove_marker s = s"

text \<open>
  \<^verbatim>\<open>int(s)\<close> in base 10: white space around the literal is dropped, a sign may lead, and
  single underscores may separate digits; a literal of more than 4300 digits is refused.
  Only ASCII digits and ASCII white space are recognised here; Python accepts the other
  Unicode decimal digits and spaces as well. The messages are abridged (CPython quotes the
  literal and counts its digits): the handler that catches them does not look at them.
\<close>

definition is_space :: "char \<Rightarrow> bool" where
  "is_space c =
     (c \<in> set [CHR 0x09, CHR 0x0A, CHR 0x0B, CHR 0x0C, CHR 0x0D,
                CHR 0x1C, CHR 0x1D, CHR 0x1E, CHR 0x1F, CHR 0x20])"

definition strip :: "string \<Rightarrow> string" where
  "strip s = rev (dropWhile is_space (rev (dropWhile is_space s)))"

definition digit_val :: "char \<Rightarrow> int option" where
  "digit_val c = map_of (zip ''0123456789'' [0, 1, 2, 3, 4, 5, 6, 7, 8, 9]) c"

text \<open>The digits after the first one; \<open>acc\<close> is the value read so far.\<close>

fun digits_value :: "int \<Rightarrow> string \<Rightarrow> int option" where
  "digits_value acc [] = Some acc"
| "digits_value acc (c # cs) =
     (if c = CHR ''_''
      then (case cs of
              [] \<Rightarrow> None
            | d # ds \<Rightarrow>
                (case digit_val d of
                   None \<Rightarrow> None
                 | Some v \<Rightarrow> digits_value (acc * 10 + v) ds))
      else (case digit_val c of
              None \<Rightarrow> None
            | Some v \<Rightarrow> digits_value (acc * 10 + v) cs))"

definition unsigned_value :: "string \<Rightarrow> int option" where
  "unsigned_value s =
     (case s of
        [] \<Rightarrow> None
      | c # cs \<Rightarrow> (case digit_val c of None \<Rightarrow> None | Some v \<Rightarrow> digits_value v cs))"

definition count_digits :: "string \<Rightarrow> nat" where
  "count_digits s = length (filter (\<lambda>c. digit_val c \<noteq> None) s)"

definition py_int :: "string \<Rightarrow> py_error + int" where
  "py_int s =
     (case (case strip s of
              [] \<Rightarrow> None
            | c # cs \<Rightarrow>
                if c = CHR ''-'' then map_option uminus (unsigned_value cs)
                else if c = CHR ''+'' then unsigned_value cs
                else unsigned_value (c # cs)) of
        None \<Rightarrow> Inl (ValueError ''invalid literal for int() with base 10'')
      | Some i \<Rightarrow>
          if max_str_digits < count_digits (strip s)
          then Inl (ValueError ''Exceeds the limit (4300 digits) for integer string conversion'')
          else Inr i)"

subsection \<open>The calendar\<close>

text \<open>
  A \<^verbatim>\<open>datetime\<close> is kept as its count of microseconds since 1970-01-01 00:00:00 on its
  own wall clock. The proleptic Gregorian calendar gives the day number of a date and
  back; March is taken as the first month of a year, so that the leap day comes last, and
  400 years have 146097 days.
\<close>

definition days_from_civil :: "int \<Rightarrow> int \<Rightarrow> int \<Rightarrow> int" where
  "days_from_civil y m d =
     (let y' = (if m \<le> 2 then y - 1 else y);
          era = y' div 400;
          yoe = y' mod 400;
          mp = (if m > 2 then m - 3 else m + 9);
          doy = (153 * mp + 2) div 5 + d - 1;
          doe = yoe * 365 + yoe div 4 - yoe div 100 + doy
      in era * 146097 + doe - 719468)"

definition civil_from_days :: "int \<Rightarrow> int \<times> int \<times> int" where
  "civil_from_days z =
     (let z' = z + 719468;
          era = z' div 146097;
          doe = z' mod 146097;
          yoe = (doe - doe div 1460 + doe div 36524 - doe div 146096) div 365;
          doy = doe - (365 * yoe + yoe div 4 - yoe div 100);
          mp = (5 * doy + 2) div 153;
          d = doy - (153 * mp + 2) div 5 + 1;
          m = (if mp < 10 then mp + 3 else mp - 9);
          y = yoe + era * 400 + (if m \<le> 2 then 1 else 0)
      in (y, m, d))"

definition us_per_day :: int where
  "us_per_day = 86400 * 1000000"

text \<open>\<^verbatim>\<open>datetime(y, m, d, tzinfo=pytz.UTC)\<close>, midnight.\<close>

definition datetime_utc :: "int \<Rightarrow> int \<Rightarrow> int \<Rightarrow> int" where
  "datetime_utc y m d = days_from_civil y m d * us_per_day"

text \<open>\<^verbatim>\<open>datetime.min\<close> and \<^verbatim>\<open>datetime.max\<close>: the years 1 to 9999.\<close>

definition min_us :: int where
  "min_us = datetime_utc 1 1 1"

definition max_us :: int where
  "max_us = datetime_utc 10000 1 1 - 1"

definition pad :: "nat \<Rightarrow> int \<Rightarrow> string" where
  "pad w n = replicate (w - length (digits n)) CHR ''0'' @ digits n"

text \<open>\<^verbatim>\<open>strftime('%Y-%m-%d %H:%M:%S')\<close>, the year padded to four digits.\<close>

definition strftime :: "int \<Rightarrow> string" where
  "strftime us =
     (let secs = us div 1000000;
          sod = secs mod 86400;
          (y, m, d) = civil_from_days (secs div 86400)
      in pad 4 y @ ''-'' @ pad 2 m @ ''-'' @ pad 2 d @ '' '' @
         pad 2 (sod div 3600) @ '':'' @ pad 2 (sod mod 3600 div 60) @ '':'' @ pad 2 (sod mod 60))"

subsection \<open>Floats, \<^verbatim>\<open>timedelta\<close> and \<^verbatim>\<open>datetime\<close> arithmetic\<close>

text \<open>
  The quotient \<open>n / d\<close> of two integers is a float. The model keeps it as the exact
  fraction \<open>(n, d)\<close> with \<open>d > 0\<close>, so the rounding of the quotient to a double is left
  out; what is kept is the \<^verbatim>\<open>OverflowError\<close> for a quotient beyond the largest double.
\<close>

type_synonym py_float = "int \<times> int"

definition true_div :: "int \<Rightarrow> int \<Rightarrow> py_error + py_float" where
  "true_div n d =
     (if (2 ^ 1024 - 2 ^ 970) * d \<le> \<bar>n\<bar>
      then Inl (OverflowError ''integer division result too large for a float'')
      else Inr (n, d))"

text \<open>\<open>n / d\<close> to the nearest integer, a tie to the even one: how seconds become microseconds.\<close>

definition round_half_even :: "int \<Rightarrow> int \<Rightarrow> int" where
  "round_half_even n d =
     (let q = n div d; r = n mod d
      in if 2 * r < d then q else if d < 2 * r then q + 1 else if even q then q else q + 1)"

definition to_microseconds :: "py_float \<Rightarrow> int" where
  "to_microseconds x = round_half_even (fst x * 1000000) (snd x)"

definition year_of :: "int \<Rightarrow> int" where
  "year_of us = fst (civil_from_days (us div us_per_day))"

text \<open>\<^verbatim>\<open>datetime.fromtimestamp(x, tz=pytz.UTC)\<close>\<close>

definition fromtimestamp_utc :: "py_float \<Rightarrow> py_error + int" where
  "fromtimestamp_utc x =
     (let us = to_microseconds x
      in if us < min_us \<or> max_us < us
         then Inl (ValueError (''year '' @ int_str (year_of us) @ '' is out of range''))
         else Inr us)"

text \<open>\<^verbatim>\<open>timedelta(seconds=x)\<close>: at most 999999999 days either way.\<close>

definition timedelta_seconds :: "py_float \<Rightarrow> py_error + int" where
  "timedelta_seconds x =
     (let us = to_microseconds x; days = us div us_per_day
      in if days < - 999999999 \<or> 999999999 < days
         then Inl (OverflowError
                (''days='' @ int_str days @ ''; must have magnitude <= 999999999''))
         else Inr us)"

text \<open>\<^verbatim>\<open>dt + td\<close>\<close>

definition datetime_add :: "int \<Rightarrow> int \<Rightarrow> py_error + int" where
  "datetime_add dt td =
     (if dt + td < min_us \<or> max_us < dt + td
      then Inl (OverflowError ''date value out of range'')
      else Inr (dt + td))"

text \<open>
  \<^verbatim>\<open>dt.astimezone(pytz.timezone('Asia/Tokyo'))\<close> for a \<^verbatim>\<open>dt\<close> in UTC. The zone data belong
  to \<^verbatim>\<open>pytz\<close>, not to this program: \<open>tokyo\<close> gives, for a count of seconds since the epoch,
  the offset of the zone from UTC at that instant, in seconds. \<^verbatim>\<open>pytz\<close> adds the offset
  to the \<^verbatim>\<open>datetime\<close>, which raises past year 9999.
\<close>

type_synonym zone = "int \<Rightarrow> int"

definition astimezone :: "zone \<Rightarrow> int \<Rightarrow> py_error + int" where
  "astimezone tokyo dt = datetime_add dt (tokyo (dt div 1000000) * 1000000)"

text \<open>Japan Standard Time, nine hours ahead of UTC at every instant.\<close>

definition japan_standard_time :: zone where
  "japan_standard_time t = 32400"

subsection \<open>\<^verbatim>\<open>unix_micro_to_jst\<close>\<close>

text \<open>The prefix of the diagnostic string, \<^verbatim>\<open>f"...: {e}"\<close>: five Japanese characters, a colon, a space.\<close>

definition conversion_error_prefix :: string where
  "conversion_error_prefix =
     [CHR 0xE5, CHR 0xA4, CHR 0x89, CHR 0xE6, CHR 0x8F, CHR 0x9B, CHR 0xE3, CHR 0x82, CHR 0xA8,
      CHR 0xE3, CHR 0x83, CHR 0xA9, CHR 0xE3, CHR 0x83, CHR 0xBC] @ '': ''"

definition conversion_error :: "py_error \<Rightarrow> string" where
  "conversion_error e = conversion_error_prefix @ error_message e"

text \<open>The body of the \<^verbatim>\<open>try\<close> block: the argument is divided by 1000.\<close>

definition unix_micro_to_jst_try :: "zone \<Rightarrow> int \<Rightarrow> py_error + string" where
  "unix_micro_to_jst_try tokyo unix_milli =
     (case true_div unix_milli 1000 of
        Inl e \<Rightarrow> Inl e
      | Inr unix_seconds \<Rightarrow>
          (case fromtimestamp_utc unix_seconds of
             Inl e \<Rightarrow> Inl e
           | Inr utc_time \<Rightarrow>
               (case astimezone tokyo utc_time of
                  Inl e \<Rightarrow> Inl e
                | Inr jst_time \<Rightarrow> Inr (strftime jst_time))))"

definition unix_micro_to_jst :: "zone \<Rightarrow> int \<Rightarrow> py_error + string" where
  "unix_micro_to_jst tokyo unix_milli =
     (case unix_micro_to_jst_try tokyo unix_milli of
        Inl e \<Rightarrow> Inr (conversion_error e)
      | Inr s \<Rightarrow> Inr s)"

subsection \<open>\<^verbatim>\<open>convert_timestamp\<close>\<close>

text \<open>
  The four branches that add a \<^verbatim>\<open>timedelta\<close> to an epoch and render the sum in Tokyo:
  \<^verbatim>\<open>epoch + timedelta(seconds=n / d)\<close>, \<^verbatim>\<open>astimezone\<close>, \<^verbatim>\<open>strftime\<close>.
\<close>

definition epoch_plus_seconds :: "zone \<Rightarrow> int \<Rightarrow> int \<Rightarrow> int \<Rightarrow> py_error + string" where
  "epoch_plus_seconds tokyo epoch n d =
     (case true_div n d of
        Inl e \<Rightarrow> Inl e
      | Inr seconds \<Rightarrow>
          (case timedelta_seconds seconds of
             Inl e \<Rightarrow> Inl e
           | Inr td \<Rightarrow>
               (case datetime_add epoch td of
                  Inl e \<Rightarrow> Inl e
                | Inr dt \<Rightarrow>
                    (case astimezone tokyo dt of
                       Inl e \<Rightarrow> Inl e
                     | Inr local \<Rightarrow> Inr (strftime local)))))"

text \<open>
  What the \<^verbatim>\<open>try\<close> block of \<^verbatim>\<open>convert_timestamp\<close> does without raising: it returns a
  string, or it ends without \<^verbatim>\<open>return\<close> and leaves the integer bound to \<^verbatim>\<open>value\<close>.
\<close>

datatype outcome = Return string | Fall_through int

text \<open>
  The \<^verbatim>\<open>if\<close>/\<^verbatim>\<open>elif\<close> chain over \<^verbatim>\<open>format_type\<close>, for an integer \<^verbatim>\<open>value\<close>. It has seven
  branches and no \<^verbatim>\<open>else\<close>.
\<close>

definition dispatch :: "zone \<Rightarrow> int \<Rightarrow> string \<Rightarrow> py_error + outcome" where
  "dispatch tokyo v format_type =
     (if format_type = ''JST'' then map_sum id Return (unix_micro_to_jst tokyo v)
      else if format_type = ''UNIX'' then map_sum id Return (str_int v)
      else if format_type = ''UNIX_SEC'' then map_sum id Return (str_int (v div 1000000))
      else if format_type = ''MAC''
        then map_sum id Return (epoch_plus_seconds tokyo (datetime_utc 2001 1 1) v 1000000)
      else if format_type = ''WEBKIT''
        then map_sum id Return (epoch_plus_seconds tokyo (datetime_utc 1601 1 1) v 1000000)
      else if format_type = ''FILETIME''
        then map_sum id Return
               (epoch_plus_seconds tokyo (datetime_utc 1601 1 1) (v * 100) 1000000000)
      else if format_type = ''COCOA''
        then map_sum id Return (epoch_plus_seconds tokyo (datetime_utc 2001 1 1) v 1000000)
      else Inr (Fall_through v))"

text \<open>
  The \<^verbatim>\<open>try\<close> block. A value that is not a number is parsed after the marker is removed;
  the inner \<^verbatim>\<open>except (ValueError, TypeError)\<close> returns the string form of the value as
  it came in, and any other exception goes on to the outer handler.
\<close>

definition convert_try :: "zone \<Rightarrow> py_value \<Rightarrow> string \<Rightarrow> py_error + outcome" where
  "convert_try tokyo v format_type =
     (case v of
        PyInt i \<Rightarrow> dispatch tokyo i format_type
      | _ \<Rightarrow>
          (case (case py_str v of
                   Inl e \<Rightarrow> Inl e
                 | Inr s \<Rightarrow> py_int (remove_marker s)) of
             Inl (ValueError m) \<Rightarrow> map_sum id Return (py_str v)
           | Inl e \<Rightarrow> Inl e
           | Inr i \<Rightarrow> dispatch tokyo i format_type))"

text \<open>
  The whole function: \<^verbatim>\<open>except Exception\<close> turns an exception of the block into the
  diagnostic string. The last line, \<^verbatim>\<open>return str(value)\<close>, comes after the block: what
  it raises reaches the caller.
\<close>

definition convert_timestamp :: "zone \<Rightarrow> py_value \<Rightarrow> string \<Rightarrow> py_error + string" where
  "convert_timestamp tokyo v format_type =
     (case convert_try tokyo v format_type of
        Inl e \<Rightarrow> Inr (conversion_error e)
      | Inr (Return s) \<Rightarrow> Inr s
      | Inr (Fall_through i) \<Rightarrow> str_int i)"

section \<open>Example databases\<close>

text \<open>
  The scenarios the specification lists as tests: a table \<^verbatim>\<open>msg(id INTEGER PRIMARY KEY, body TEXT)\<close>
  and a table \<^verbatim>\<open>att(val TEXT)\<close> without a primary key, each with a WAL file beside
  \<^verbatim>\<open>line.db\<close>.
\<close>

definition column :: "int \<Rightarrow> string \<Rightarrow> string \<Rightarrow> int \<Rightarrow> column_info" where
  "column i n t p = \<lparr>cid = i, col_name = n, col_type = t, notnull = 0, dflt_value = None, pk = p\<rparr>"

definition msg_info :: "column_info list" where
  "msg_info = [column 0 ''id'' ''INTEGER'' 1, column 1 ''body'' ''TEXT'' 0]"

definition precedence_main :: database where
  "precedence_main = [''msg'' \<mapsto> \<lparr>table_info = msg_info,
      table_rows = [[SqlInt 1, SqlText ''A'']]\<rparr>]"

definition precedence_fs :: filesystem where
  "precedence_fs = [''line.db-wal'' \<mapsto> Readable [''msg'' \<mapsto> \<lparr>table_info = msg_info,
      table_rows = [[SqlInt 1, SqlText ''B''], [SqlInt 2, SqlText ''C'']]\<rparr>]]"

definition limit_main :: database where
  "limit_main = [''msg'' \<mapsto> \<lparr>table_info = msg_info,
      table_rows = [[SqlInt 1, SqlText ''a''], [SqlInt 2, SqlText ''b''], [SqlInt 3, SqlText ''c''],
                    [SqlInt 4, SqlText ''d''], [SqlInt 5, SqlText ''e'']]\<rparr>]"

definition limit_fs :: filesystem where
  "limit_fs = [''line.db-wal'' \<mapsto> Readable [''msg'' \<mapsto> \<lparr>table_info = msg_info,
      table_rows = [[SqlInt 6, SqlText ''f''], [SqlInt 7, SqlText ''g'']]\<rparr>]]"

definition collide_fs :: filesystem where
  "collide_fs = [''line.db-wal'' \<mapsto> Readable [''msg'' \<mapsto> \<lparr>table_info = msg_info,
      table_rows = [[SqlInt 2, SqlText ''w'']]\<rparr>]]"


definition nokey_info :: "column_info list" where
  "nokey_info = [column 0 ''val'' ''TEXT'' 0]"

definition nokey_main :: database where
  "nokey_main = [''att'' \<mapsto> \<lparr>table_info = nokey_info, table_rows = [[SqlText ''x'']]\<rparr>]"

definition nokey_fs :: filesystem where
  "nokey_fs = [''line.db-wal'' \<mapsto> Readable [''att'' \<mapsto> \<lparr>table_info = nokey_info,
      table_rows = [[SqlText ''y'']]\<rparr>]]"

section \<open>Properties of the WAL merge\<close>

lemmas contents_defs = get_table_contents_with_wal_def contents_try_def table_columns_def
  table_pk_columns_def fetch_main_def select_all_def pragma_table_info_def get_wal_data_def
  row_get_def sql_limit_def

lemma merge_wal_char:
  "merge_wal idxs K wal (d, w) = Inr (d', w') \<Longrightarrow>
     d' = d @ filter (\<lambda>r. \<exists>k. key_of r idxs = Inr k \<and> k \<notin> K) wal \<and>
     w' = w \<union> {KeyTuple k | k r. r \<in> set wal \<and> key_of r idxs = Inr k \<and> k \<notin> K}"
proof (induction wal arbitrary: d w)
  case Nil
  then show ?case by simp
next
  case (Cons r rs)
  from Cons.prems obtain k where k: "key_of r idxs = Inr k"
    by (auto split: sum.splits)
  show ?case
  proof (cases "k \<in> K")
    case True
    with Cons.prems k have "merge_wal idxs K rs (d, w) = Inr (d', w')" by simp
    from Cons.IH [OF this] True k show ?thesis by auto
  next
    case False
    with Cons.prems k
    have "merge_wal idxs K rs (d @ [r], insert (KeyTuple k) w) = Inr (d', w')" by simp
    from Cons.IH [OF this] False k show ?thesis by auto
  qed
qed

lemma merge_wal_keys_defined:
  "merge_wal idxs K wal st = Inr st' \<Longrightarrow> \<forall>r \<in> set wal. \<exists>k. key_of r idxs = Inr k"
proof (induction wal arbitrary: st)
  case Nil
  then show ?case by simp
next
  case (Cons r rs)
  obtain d w where st: "st = (d, w)" by (cases st)
  from Cons.prems st obtain k where k: "key_of r idxs = Inr k"
    by (auto split: sum.splits)
  from Cons.prems st k obtain st2 where "merge_wal idxs K rs st2 = Inr st'"
    by (auto split: if_splits)
  from Cons.IH [OF this] k show ?case by simp
qed

lemma collect_db_keys_char:
  "collect_db_keys idxs rs K = Inr K' \<Longrightarrow>
     K' = K \<union> {k. \<exists>r \<in> set rs. key_of r idxs = Inr k} \<and> (\<forall>r \<in> set rs. \<exists>k. key_of r idxs = Inr k)"
proof (induction rs arbitrary: K)
  case Nil
  then show ?case by simp
next
  case (Cons r rs)
  then show ?case
    by (auto split: sum.splits)
qed

lemma contents_try_pk:
  assumes "contents_try cursor fs t p limit = Inr (cols, rows, wk)"
    and "table_pk_columns cursor t \<noteq> []"
    and "fetch_main cursor t limit = Inr db_data"
    and "pk_indices_of (table_columns cursor t) (table_pk_columns cursor t) = Inr idxs"
  shows "\<exists>K. collect_db_keys idxs db_data {} = Inr K \<and>
             merge_wal idxs K (get_wal_data fs p t) (db_data, {}) = Inr (rows, wk) \<and>
             cols = table_columns cursor t"
  using assms by (auto simp: contents_try_def Let_def split: sum.splits)

lemma contents_try_nokey:
  assumes "table_pk_columns cursor t = []"
    and "fetch_main cursor t limit = Inr db_data"
  shows "contents_try cursor fs t p limit =
           Inr (table_columns cursor t, db_data @ get_wal_data fs p t,
                RowIndex ` {length db_data ..< length db_data + length (get_wal_data fs p t)})"
  using assms by (simp add: contents_try_def Let_def)

lemma contents_try_fetch:
  "contents_try cursor fs t p limit = Inr res \<Longrightarrow> \<exists>db_data. fetch_main cursor t limit = Inr db_data"
  by (auto simp: contents_try_def Let_def split: sum.splits)

lemma contents_try_indices:
  "contents_try cursor fs t p limit = Inr res \<Longrightarrow>
     \<exists>idxs. pk_indices_of (table_columns cursor t) (table_pk_columns cursor t) = Inr idxs"
  by (cases "table_pk_columns cursor t = []")
     (auto simp: contents_try_def Let_def split: sum.splits)

text \<open>The merged rows, in the primary-key case and in the no-key case alike.\<close>

lemma contents_try_rows:
  assumes body: "contents_try cursor fs t p limit = Inr (cols, rows, wk)"
    and fetch: "fetch_main cursor t limit = Inr db_data"
    and idxs: "pk_indices_of (table_columns cursor t) (table_pk_columns cursor t) = Inr idxs"
  shows "rows = db_data @
           filter (\<lambda>w. table_pk_columns cursor t = [] \<or>
                        (\<forall>m \<in> set db_data. key_of w idxs \<noteq> key_of m idxs))
                  (get_wal_data fs p t)"
proof (cases "table_pk_columns cursor t = []")
  case True
  with body fetch show ?thesis by (simp add: contents_try_nokey)
next
  case False
  from contents_try_pk [OF body False fetch idxs] obtain K where
    K: "collect_db_keys idxs db_data {} = Inr K" and
    m: "merge_wal idxs K (get_wal_data fs p t) (db_data, {}) = Inr (rows, wk)" by blast
  from collect_db_keys_char [OF K] have
    K_eq: "K = {k. \<exists>r \<in> set db_data. key_of r idxs = Inr k}" and
    K_def: "\<forall>r \<in> set db_data. \<exists>k. key_of r idxs = Inr k" by auto
  from merge_wal_keys_defined [OF m] have
    w_def: "\<forall>r \<in> set (get_wal_data fs p t). \<exists>k. key_of r idxs = Inr k" .
  from merge_wal_char [OF m] have
    r: "rows = db_data @ filter (\<lambda>r. \<exists>k. key_of r idxs = Inr k \<and> k \<notin> K) (get_wal_data fs p t)"
    by simp
  have "filter (\<lambda>r. \<exists>k. key_of r idxs = Inr k \<and> k \<notin> K) (get_wal_data fs p t) =
        filter (\<lambda>w. \<forall>m \<in> set db_data. key_of w idxs \<noteq> key_of m idxs) (get_wal_data fs p t)"
  proof (rule filter_cong [OF refl])
    fix w assume "w \<in> set (get_wal_data fs p t)"
    with w_def obtain k where k: "key_of w idxs = Inr k" by blast
    show "(\<exists>k. key_of w idxs = Inr k \<and> k \<notin> K) = (\<forall>m \<in> set db_data. key_of w idxs \<noteq> key_of m idxs)"
      using k K_eq K_def by auto
  qed
  with r False show ?thesis by simp
qed


lemma contents_try_wal_keys:
  assumes body: "contents_try cursor fs t p limit = Inr (cols, rows, wk)"
    and pk: "table_pk_columns cursor t \<noteq> []"
    and fetch: "fetch_main cursor t limit = Inr db_data"
    and idxs: "pk_indices_of (table_columns cursor t) (table_pk_columns cursor t) = Inr idxs"
  shows "wk = {KeyTuple k | k w. w \<in> set (get_wal_data fs p t) \<and> key_of w idxs = Inr k \<and>
                               (\<forall>m \<in> set db_data. key_of m idxs \<noteq> Inr k)}"
proof -
  from contents_try_pk [OF body pk fetch idxs] obtain K where
    K: "collect_db_keys idxs db_data {} = Inr K" and
    m: "merge_wal idxs K (get_wal_data fs p t) (db_data, {}) = Inr (rows, wk)" by blast
  from collect_db_keys_char [OF K] have
    K_eq: "K = {k. \<exists>r \<in> set db_data. key_of r idxs = Inr k}" by auto
  from merge_wal_char [OF m] have
    "wk = {KeyTuple k | k r. r \<in> set (get_wal_data fs p t) \<and> key_of r idxs = Inr k \<and> k \<notin> K}"
    by simp
  with K_eq show ?thesis by auto
qed


subsection \<open>An absent table\<close>

text \<open>
  Claim C1, as amended. For a table name that is not in the catalog,
  \<^verbatim>\<open>get_table_contents_with_wal\<close> does not fail: \<^verbatim>\<open>SELECT\<close> raises inside the \<^verbatim>\<open>try\<close>
  block, \<^verbatim>\<open>except Exception\<close> catches it, and the caller receives the three empty
  containers as a normal result, whatever the WAL file, the path and the limit are.
\<close>

theorem absent_table_empty_result:
  "cursor table_name = None \<Longrightarrow>
     get_table_contents_with_wal cursor fs table_name db_path limit = Inr ([], [], {})"
  by (simp add: contents_defs)

theorem absent_table_empty_result_witness:
  "precedence_main ''NoSuchTable'' = None \<and>
   get_table_contents_with_wal precedence_main precedence_fs ''NoSuchTable'' ''line.db'' (Some 10)
     = Inr ([], [], {})"
proof -
  have h: "precedence_main ''NoSuchTable'' = None" by (simp add: precedence_main_def)
  from h absent_table_empty_result
    [where cursor = precedence_main and table_name = "''NoSuchTable''" and fs = precedence_fs
       and db_path = "''line.db''" and limit = "Some 10"]
  show ?thesis by simp
qed

text \<open>
  Claim C1 as stated asks for a failure labelled \<^verbatim>\<open>SchemaError\<close>. On a database that
  has the table \<^verbatim>\<open>msg\<close> only, the call for \<^verbatim>\<open>NoSuchTable\<close> returns normally.
\<close>

theorem absent_table_counterexample:
  "get_table_contents_with_wal precedence_main precedence_fs ''NoSuchTable'' ''line.db'' None
     = Inr ([], [], {})"
  by (simp add: contents_defs precedence_main_def precedence_fs_def)

subsection \<open>The main source wins\<close>

text \<open>
  What the merge guarantees: the fetched main rows are the first rows of the result,
  unchanged and in place, and a WAL row whose primary-key tuple equals that of a fetched
  main row is neither appended nor recorded.
\<close>

lemma fetched_rows_win:
  assumes body: "contents_try cursor fs t p limit = Inr (cols, rows, wk)"
    and pk: "table_pk_columns cursor t \<noteq> []"
    and fetch: "fetch_main cursor t limit = Inr db_data"
    and idxs: "pk_indices_of (table_columns cursor t) (table_pk_columns cursor t) = Inr idxs"
  shows "take (length db_data) rows = db_data"
    and "\<forall>w \<in> set (get_wal_data fs p t). \<forall>m \<in> set db_data.
           key_of w idxs = key_of m idxs \<longrightarrow>
             w \<notin> set (drop (length db_data) rows) \<and>
             (\<forall>k. key_of w idxs = Inr k \<longrightarrow> KeyTuple k \<notin> wk)"
proof -
  note rows = contents_try_rows [OF body fetch idxs]
  from rows show "take (length db_data) rows = db_data" by simp
  note keys = contents_try_wal_keys [OF body pk fetch idxs]
  show "\<forall>w \<in> set (get_wal_data fs p t). \<forall>m \<in> set db_data.
         key_of w idxs = key_of m idxs \<longrightarrow>
           w \<notin> set (drop (length db_data) rows) \<and>
           (\<forall>k. key_of w idxs = Inr k \<longrightarrow> KeyTuple k \<notin> wk)"
  proof (intro ballI impI conjI allI)
    fix w m k
    assume w: "w \<in> set (get_wal_data fs p t)" and m: "m \<in> set db_data"
      and eq: "key_of w idxs = key_of m idxs"
    from rows have "drop (length db_data) rows =
        filter (\<lambda>w. table_pk_columns cursor t = [] \<or>
                        (\<forall>m \<in> set db_data. key_of w idxs \<noteq> key_of m idxs))
                  (get_wal_data fs p t)" by simp
    with pk m eq show "w \<notin> set (drop (length db_data) rows)" by auto
    assume "key_of w idxs = Inr k"
    with eq m keys show "KeyTuple k \<notin> wk" by auto
  qed
qed

text \<open>
  Claim C4. The scenario of the specification comes out as claimed: main row \<open>1, A\<close>, WAL
  rows \<open>1, B\<close> and \<open>2, C\<close> give the rows \<open>1, A\<close> and \<open>2, C\<close> and \<^verbatim>\<open>wal_only_keys\<close> \<open>{(2,)}\<close>.
  But \<^verbatim>\<open>db_keys\<close> is built from the rows fetched under \<^verbatim>\<open>LIMIT\<close>, not from the main source.
  With \<^verbatim>\<open>limit=1\<close>, a main table holding the keys 1 to 5 and a WAL row \<open>2, w\<close>, the WAL
  row has the key of the main row \<open>2, b\<close> and is appended all the same, and \<open>(2,)\<close> is
  recorded as WAL-only.
\<close>

theorem wal_precedence_lost_under_limit:
  "get_table_contents_with_wal precedence_main precedence_fs ''msg'' ''line.db'' None =
     Inr ([''id'', ''body''],
          [[SqlInt 1, SqlText ''A''], [SqlInt 2, SqlText ''C'']],
          {KeyTuple [SqlInt 2]}) \<and>
   select_all limit_main ''msg'' None =
     Inr [[SqlInt 1, SqlText ''a''], [SqlInt 2, SqlText ''b''], [SqlInt 3, SqlText ''c''],
          [SqlInt 4, SqlText ''d''], [SqlInt 5, SqlText ''e'']] \<and>
   get_wal_data collide_fs ''line.db'' ''msg'' = [[SqlInt 2, SqlText ''w'']] \<and>
   key_of [SqlInt 2, SqlText ''w''] [0] = key_of [SqlInt 2, SqlText ''b''] [0] \<and>
   get_table_contents_with_wal limit_main collide_fs ''msg'' ''line.db'' (Some 1) =
     Inr ([''id'', ''body''],
          [[SqlInt 1, SqlText ''a''], [SqlInt 2, SqlText ''w'']],
          {KeyTuple [SqlInt 2]})"
  by (simp add: contents_defs column_def msg_info_def precedence_main_def precedence_fs_def
      limit_main_def collide_fs_def)

subsection \<open>The row limit\<close>



subsection \<open>What a WAL-only key stands for\<close>





subsection \<open>A table without primary key\<close>

text \<open>
  Claim C8. When the table declares no primary-key column and the main rows can be
  fetched, the result is the main rows followed by all WAL rows, and \<^verbatim>\<open>wal_only_keys\<close> is
  the set of the positions of exactly the appended rows. Main rows \<open>[("x",)]\<close> and WAL rows
  \<open>[("y",)]\<close> give rows \<open>[("x",), ("y",)]\<close> and the position set \<open>{1}\<close>, the second row.
\<close>

theorem no_primary_key_fallback:
  "(table_pk_columns cursor t = [] \<and> fetch_main cursor t limit = Inr db_data \<longrightarrow>
      get_table_contents_with_wal cursor fs t p limit =
        Inr (table_columns cursor t, db_data @ get_wal_data fs p t,
             RowIndex ` {length db_data ..< length db_data + length (get_wal_data fs p t)})) \<and>
   get_table_contents_with_wal nokey_main nokey_fs ''att'' ''line.db'' None =
     Inr ([''val''], [[SqlText ''x''], [SqlText ''y'']], {RowIndex 1})"
proof (intro conjI impI)
  show "get_table_contents_with_wal nokey_main nokey_fs ''att'' ''line.db'' None =
     Inr ([''val''], [[SqlText ''x''], [SqlText ''y'']], {RowIndex 1})"
    by (simp add: contents_defs column_def nokey_info_def nokey_main_def nokey_fs_def)
next
  assume "table_pk_columns cursor t = [] \<and> fetch_main cursor t limit = Inr db_data"
  then have "contents_try cursor fs t p limit =
           Inr (table_columns cursor t, db_data @ get_wal_data fs p t,
                RowIndex ` {length db_data ..< length db_data + length (get_wal_data fs p t)})"
    by (simp add: contents_try_nokey)
  then show "get_table_contents_with_wal cursor fs t p limit =
        Inr (table_columns cursor t, db_data @ get_wal_data fs p t,
             RowIndex ` {length db_data ..< length db_data + length (get_wal_data fs p t)})"
    by (simp add: get_table_contents_with_wal_def)
qed

theorem no_primary_key_fallback_witness:
  "table_pk_columns nokey_main ''att'' = [] \<and>
   fetch_main nokey_main ''att'' None = Inr [[SqlText ''x'']] \<and>
   get_table_contents_with_wal nokey_main nokey_fs ''att'' ''line.db'' None =
     Inr (table_columns nokey_main ''att'',
          [[SqlText ''x'']] @ get_wal_data nokey_fs ''line.db'' ''att'',
          RowIndex ` {length [[SqlText ''x'']] ..<
                      length [[SqlText ''x'']] + length (get_wal_data nokey_fs ''line.db'' ''att'')})"
proof -
  have pk: "table_pk_columns nokey_main ''att'' = []"
    by (simp add: contents_defs column_def nokey_info_def nokey_main_def)
  have fetch: "fetch_main nokey_main ''att'' None = Inr [[SqlText ''x'']]"
    by (simp add: contents_defs nokey_main_def)
  from no_primary_key_fallback
    [where cursor = nokey_main and t = "''att''" and limit = None
       and db_data = "[[SqlText ''x'']]" and fs = nokey_fs and p = "''line.db''"]
    pk fetch
  show ?thesis by blast
qed

subsection \<open>A limit of zero\<close>

text \<open>
  Claim C10. \<^verbatim>\<open>limit=0\<close> is falsy, so the main fetch runs without \<^verbatim>\<open>LIMIT\<close>, as it does
  for \<^verbatim>\<open>limit=None\<close>: the fetch yields every row of the table, the two calls return the
  same result, and when the \<^verbatim>\<open>try\<close> block runs to its end the result begins with all the
  main rows. On the main table of 5 rows with 2 new keys in the WAL, \<^verbatim>\<open>limit=0\<close> returns
  all \<open>5 + 2\<close> rows, where \<^verbatim>\<open>LIMIT 0\<close> would have fetched none.
\<close>

theorem zero_limit_is_no_limit:
  "fetch_main cursor t (Some 0) = select_all cursor t None \<and>
   fetch_main cursor t (Some 0) = fetch_main cursor t None \<and>
   get_table_contents_with_wal cursor fs t p (Some 0) =
     get_table_contents_with_wal cursor fs t p None \<and>
   (cursor t = Some tb \<longrightarrow> fetch_main cursor t (Some 0) = Inr (table_rows tb)) \<and>
   (cursor t = Some tb \<and> contents_try cursor fs t p (Some 0) = Inr (cols, rows, wk) \<longrightarrow>
      take (length (table_rows tb)) rows = table_rows tb \<and>
      get_table_contents_with_wal cursor fs t p (Some 0) = Inr (cols, rows, wk)) \<and>
   sql_limit 0 [[SqlInt 1, SqlText ''a'']] = [] \<and>
   get_table_contents_with_wal limit_main limit_fs ''msg'' ''line.db'' (Some 0) =
     Inr ([''id'', ''body''],
          [[SqlInt 1, SqlText ''a''], [SqlInt 2, SqlText ''b''], [SqlInt 3, SqlText ''c''],
           [SqlInt 4, SqlText ''d''], [SqlInt 5, SqlText ''e''],
           [SqlInt 6, SqlText ''f''], [SqlInt 7, SqlText ''g'']],
          {KeyTuple [SqlInt 6], KeyTuple [SqlInt 7]})"
proof (intro conjI impI)
  show "fetch_main cursor t (Some 0) = select_all cursor t None"
    and "fetch_main cursor t (Some 0) = fetch_main cursor t None"
    by (simp_all add: fetch_main_def)
  show "get_table_contents_with_wal cursor fs t p (Some 0) =
     get_table_contents_with_wal cursor fs t p None"
    by (simp add: get_table_contents_with_wal_def contents_try_def fetch_main_def)
  show "sql_limit 0 [[SqlInt 1, SqlText ''a'']] = []"
    by (simp add: sql_limit_def)
  show "get_table_contents_with_wal limit_main limit_fs ''msg'' ''line.db'' (Some 0) =
     Inr ([''id'', ''body''],
          [[SqlInt 1, SqlText ''a''], [SqlInt 2, SqlText ''b''], [SqlInt 3, SqlText ''c''],
           [SqlInt 4, SqlText ''d''], [SqlInt 5, SqlText ''e''],
           [SqlInt 6, SqlText ''f''], [SqlInt 7, SqlText ''g'']],
          {KeyTuple [SqlInt 6], KeyTuple [SqlInt 7]})"
    by (simp add: contents_defs column_def msg_info_def limit_main_def limit_fs_def insert_commute)
next
  assume "cursor t = Some tb"
  then show "fetch_main cursor t (Some 0) = Inr (table_rows tb)"
    by (simp add: fetch_main_def select_all_def)
next
  assume a: "cursor t = Some tb \<and> contents_try cursor fs t p (Some 0) = Inr (cols, rows, wk)"
  then have fetch: "fetch_main cursor t (Some 0) = Inr (table_rows tb)"
    by (simp add: fetch_main_def select_all_def)
  from a have body: "contents_try cursor fs t p (Some 0) = Inr (cols, rows, wk)"
    by simp
  from contents_try_indices [OF body] obtain idxs where
    "pk_indices_of (table_columns cursor t) (table_pk_columns cursor t) = Inr idxs"
    by blast
  from contents_try_rows [OF body fetch this]
  show "take (length (table_rows tb)) rows = table_rows tb"
    by simp
  from body show "get_table_contents_with_wal cursor fs t p (Some 0) = Inr (cols, rows, wk)"
    by (simp add: get_table_contents_with_wal_def)
qed

theorem zero_limit_is_no_limit_witness:
  "limit_main ''msg'' = Some \<lparr>table_info = msg_info,
      table_rows = [[SqlInt 1, SqlText ''a''], [SqlInt 2, SqlText ''b''], [SqlInt 3, SqlText ''c''],
                    [SqlInt 4, SqlText ''d''], [SqlInt 5, SqlText ''e'']]\<rparr> \<and>
   contents_try limit_main limit_fs ''msg'' ''line.db'' (Some 0) =
     Inr ([''id'', ''body''],
          [[SqlInt 1, SqlText ''a''], [SqlInt 2, SqlText ''b''], [SqlInt 3, SqlText ''c''],
           [SqlInt 4, SqlText ''d''], [SqlInt 5, SqlText ''e''],
           [SqlInt 6, SqlText ''f''], [SqlInt 7, SqlText ''g'']],
          {KeyTuple [SqlInt 6], KeyTuple [SqlInt 7]}) \<and>
   fetch_main limit_main ''msg'' (Some 0) =
     Inr [[SqlInt 1, SqlText ''a''], [SqlInt 2, SqlText ''b''], [SqlInt 3, SqlText ''c''],
          [SqlInt 4, SqlText ''d''], [SqlInt 5, SqlText ''e'']] \<and>
   take 5 [[SqlInt 1, SqlText ''a''], [SqlInt 2, SqlText ''b''], [SqlInt 3, SqlText ''c''],
           [SqlInt 4, SqlText ''d''], [SqlInt 5, SqlText ''e''],
           [SqlInt 6, SqlText ''f''], [SqlInt 7, SqlText ''g'']] =
     [[SqlInt 1, SqlText ''a''], [SqlInt 2, SqlText ''b''], [SqlInt 3, SqlText ''c''],
      [SqlInt 4, SqlText ''d''], [SqlInt 5, SqlText ''e'']]"
proof -
  have tb: "limit_main ''msg'' = Some \<lparr>table_info = msg_info,
      table_rows = [[SqlInt 1, SqlText ''a''], [SqlInt 2, SqlText ''b''], [SqlInt 3, SqlText ''c''],
                    [SqlInt 4, SqlText ''d''], [SqlInt 5, SqlText ''e'']]\<rparr>"
    by (simp add: limit_main_def)
  have body: "contents_try limit_main limit_fs ''msg'' ''line.db'' (Some 0) =
     Inr ([''id'', ''body''],
          [[SqlInt 1, SqlText ''a''], [SqlInt 2, SqlText ''b''], [SqlInt 3, SqlText ''c''],
           [SqlInt 4, SqlText ''d''], [SqlInt 5, SqlText ''e''],
           [SqlInt 6, SqlText ''f''], [SqlInt 7, SqlText ''g'']],
          {KeyTuple [SqlInt 6], KeyTuple [SqlInt 7]})"
    by (simp add: contents_defs column_def msg_info_def limit_main_def limit_fs_def insert_commute)
  from zero_limit_is_no_limit
    [where cursor = limit_main and fs = limit_fs and t = "''msg''" and p = "''line.db''"
       and cols = "[''id'', ''body'']"
       and rows = "[[SqlInt 1, SqlText ''a''], [SqlInt 2, SqlText ''b''], [SqlInt 3, SqlText ''c''],
           [SqlInt 4, SqlText ''d''], [SqlInt 5, SqlText ''e''],
           [SqlInt 6, SqlText ''f''], [SqlInt 7, SqlText ''g'']]"
       and wk = "{KeyTuple [SqlInt 6], KeyTuple [SqlInt 7]}"
       and tb = "\<lparr>table_info = msg_info,
      table_rows = [[SqlInt 1, SqlText ''a''], [SqlInt 2, SqlText ''b''], [SqlInt 3, SqlText ''c''],
                    [SqlInt 4, SqlText ''d''], [SqlInt 5, SqlText ''e'']]\<rparr>"]
    tb body
  have "fetch_main limit_main ''msg'' (Some 0) =
          Inr (table_rows \<lparr>table_info = msg_info,
      table_rows = [[SqlInt 1, SqlText ''a''], [SqlInt 2, SqlText ''b''], [SqlInt 3, SqlText ''c''],
                    [SqlInt 4, SqlText ''d''], [SqlInt 5, SqlText ''e'']]\<rparr>) \<and>
        take (length (table_rows \<lparr>table_info = msg_info,
      table_rows = [[SqlInt 1, SqlText ''a''], [SqlInt 2, SqlText ''b''], [SqlInt 3, SqlText ''c''],
                    [SqlInt 4, SqlText ''d''], [SqlInt 5, SqlText ''e'']]\<rparr>))
          [[SqlInt 1, SqlText ''a''], [SqlInt 2, SqlText ''b''], [SqlInt 3, SqlText ''c''],
           [SqlInt 4, SqlText ''d''], [SqlInt 5, SqlText ''e''],
           [SqlInt 6, SqlText ''f''], [SqlInt 7, SqlText ''g'']] =
        table_rows \<lparr>table_info = msg_info,
      table_rows = [[SqlInt 1, SqlText ''a''], [SqlInt 2, SqlText ''b''], [SqlInt 3, SqlText ''c''],
                    [SqlInt 4, SqlText ''d''], [SqlInt 5, SqlText ''e'']]\<rparr>"
    by blast
  with tb body show ?thesis by simp
qed

section \<open>Properties of the timestamp conversion\<close>

lemma min_us_value: "min_us = - 62135596800000000"
  by code_simp

lemma max_us_value: "max_us = 253402300799999999"
  by code_simp

lemma round_half_even_exact: "0 < d \<Longrightarrow> round_half_even (k * d) d = k"
  by (simp add: round_half_even_def)

lemma true_div_in_datetime_range:
  assumes "min_us \<le> v * 1000" and "v * 1000 \<le> max_us"
  shows "true_div v 1000 = Inr (v, 1000)"
proof -
  from assms have "\<bar>v\<bar> < 2 ^ 60"
    by (simp add: min_us_value max_us_value)
  moreover have "(2::int) ^ 60 \<le> (2 ^ 1024 - 2 ^ 970) * 1000"
    by simp
  ultimately have "\<not> (2 ^ 1024 - 2 ^ 970) * 1000 \<le> \<bar>v\<bar>"
    by linarith
  then show ?thesis
    by (simp only: true_div_def if_False)
qed

lemma milliseconds_to_microseconds: "to_microseconds (v, 1000) = v * 1000"
proof -
  have "round_half_even ((v * 1000) * 1000) 1000 = v * 1000"
    by (rule round_half_even_exact) simp
  then show ?thesis
    by (simp add: to_microseconds_def mult.assoc)
qed

lemma unix_micro_to_jst_in_range:
  assumes "min_us \<le> v * 1000" and "v * 1000 \<le> max_us"
    and "min_us \<le> v * 1000 + tokyo (v div 1000) * 1000000"
    and "v * 1000 + tokyo (v div 1000) * 1000000 \<le> max_us"
  shows "unix_micro_to_jst tokyo v = Inr (strftime (v * 1000 + tokyo (v div 1000) * 1000000))"
proof -
  have "(v * 1000) div (1000 * 1000) = v div 1000"
    by (rule div_mult_mult2) simp
  then have sec: "v * 1000 div 1000000 = v div 1000"
    by simp
  from assms(1,2) have "fromtimestamp_utc (v, 1000) = Inr (v * 1000)"
    by (simp add: fromtimestamp_utc_def milliseconds_to_microseconds)
  moreover from assms(3,4)
  have "astimezone tokyo (v * 1000) = Inr (v * 1000 + tokyo (v div 1000) * 1000000)"
    by (simp add: astimezone_def datetime_add_def sec)
  ultimately show ?thesis
    by (simp add: unix_micro_to_jst_def unix_micro_to_jst_try_def
        true_div_in_datetime_range [OF assms(1,2)])
qed

subsection \<open>The tag \<^verbatim>\<open>JST\<close>\<close>

text \<open>
  Claim C2 as stated fails: \<^verbatim>\<open>unix_micro_to_jst\<close> divides by 1000, so the microsecond
  value 1704034800000000 is taken for an instant in the year 55968, \<^verbatim>\<open>fromtimestamp\<close>
  raises, and the result is the diagnostic string.
\<close>

theorem jst_microseconds_counterexample:
  "convert_timestamp japan_standard_time (PyInt 1704034800000000) ''JST'' =
     Inr (conversion_error_prefix @ ''year 55968 is out of range'') \<and>
   convert_timestamp japan_standard_time (PyInt 1704034800000000) ''JST'' \<noteq>
     Inr ''2024-01-01 00:00:00''"
  by code_simp

text \<open>
  Claim C2, as amended. With the tag \<^verbatim>\<open>JST\<close> the value is read as milliseconds since the
  UNIX epoch: whenever that instant and its Tokyo wall-clock time lie in the years 1 to
  9999, the result is the wall-clock time \<open>v\<close> milliseconds after the epoch, shifted by the
  zone's offset at that instant, as \<^verbatim>\<open>YYYY-MM-DD HH:MM:SS\<close>. In particular
  \<^verbatim>\<open>convert_timestamp(1704034800000, "JST")\<close> is \<^verbatim>\<open>2024-01-01 00:00:00\<close>, for any zone
  data that put Tokyo nine hours ahead of UTC at that instant.
\<close>

theorem jst_reads_milliseconds:
  "(min_us \<le> v * 1000 \<and> v * 1000 \<le> max_us \<and>
    min_us \<le> v * 1000 + tokyo (v div 1000) * 1000000 \<and>
    v * 1000 + tokyo (v div 1000) * 1000000 \<le> max_us \<longrightarrow>
      convert_timestamp tokyo (PyInt v) ''JST'' =
        Inr (strftime (v * 1000 + tokyo (v div 1000) * 1000000))) \<and>
   (tokyo 1704034800 = 32400 \<longrightarrow>
      convert_timestamp tokyo (PyInt 1704034800000) ''JST'' = Inr ''2024-01-01 00:00:00'')"
proof (intro conjI impI)
  assume "min_us \<le> v * 1000 \<and> v * 1000 \<le> max_us \<and>
    min_us \<le> v * 1000 + tokyo (v div 1000) * 1000000 \<and>
    v * 1000 + tokyo (v div 1000) * 1000000 \<le> max_us"
  then have "unix_micro_to_jst tokyo v =
      Inr (strftime (v * 1000 + tokyo (v div 1000) * 1000000))"
    by (intro unix_micro_to_jst_in_range) simp_all
  then show "convert_timestamp tokyo (PyInt v) ''JST'' =
      Inr (strftime (v * 1000 + tokyo (v div 1000) * 1000000))"
    by (simp add: convert_timestamp_def convert_try_def dispatch_def)
next
  assume tz: "tokyo 1704034800 = 32400"
  have "unix_micro_to_jst tokyo 1704034800000 =
      Inr (strftime (1704034800000 * 1000 + tokyo (1704034800000 div 1000) * 1000000))"
    by (rule unix_micro_to_jst_in_range) (simp_all add: tz min_us_value max_us_value)
  moreover have "strftime (1704034800000 * 1000 + 32400 * 1000000) = ''2024-01-01 00:00:00''"
    by code_simp
  ultimately have "unix_micro_to_jst tokyo 1704034800000 = Inr ''2024-01-01 00:00:00''"
    by (simp add: tz)
  then show "convert_timestamp tokyo (PyInt 1704034800000) ''JST'' = Inr ''2024-01-01 00:00:00''"
    by (simp add: convert_timestamp_def convert_try_def dispatch_def)
qed

theorem jst_reads_milliseconds_witness:
  "min_us \<le> 1704034800000 * 1000 \<and> 1704034800000 * 1000 \<le> max_us \<and>
   min_us \<le> 1704034800000 * 1000 + japan_standard_time (1704034800000 div 1000) * 1000000 \<and>
   1704034800000 * 1000 + japan_standard_time (1704034800000 div 1000) * 1000000 \<le> max_us \<and>
   japan_standard_time 1704034800 = 32400 \<and>
   convert_timestamp japan_standard_time (PyInt 1704034800000) ''JST'' =
     Inr (strftime (1704034800000 * 1000 +
                    japan_standard_time (1704034800000 div 1000) * 1000000)) \<and>
   convert_timestamp japan_standard_time (PyInt 1704034800000) ''JST'' =
     Inr ''2024-01-01 00:00:00''"
proof -
  have range: "min_us \<le> 1704034800000 * 1000 \<and> 1704034800000 * 1000 \<le> max_us \<and>
   min_us \<le> 1704034800000 * 1000 + japan_standard_time (1704034800000 div 1000) * 1000000 \<and>
   1704034800000 * 1000 + japan_standard_time (1704034800000 div 1000) * 1000000 \<le> max_us"
    by (simp add: min_us_value max_us_value japan_standard_time_def)
  have tz: "japan_standard_time 1704034800 = 32400"
    by (simp add: japan_standard_time_def)
  from jst_reads_milliseconds [where tokyo = japan_standard_time and v = 1704034800000]
    range tz
  show ?thesis by blast
qed

subsection \<open>The tags outside the chain\<close>

text \<open>
  A tag that is none of the seven of the chain leaves the \<^verbatim>\<open>try\<close> block without
  \<^verbatim>\<open>return\<close>, and the last line of the function converts the value itself.
\<close>

lemma unlisted_tag_falls_through:
  assumes "format_type \<notin> {''JST'', ''UNIX'', ''UNIX_SEC'', ''MAC'', ''WEBKIT'', ''FILETIME'', ''COCOA''}"
  shows "convert_timestamp tokyo (PyInt v) format_type = str_int v"
  using assms by (simp add: convert_timestamp_def convert_try_def dispatch_def)

lemma str_int_within_limit: "\<bar>i\<bar> < 10 ^ max_str_digits \<Longrightarrow> str_int i = Inr (int_str i)"
  by (simp add: str_int_def)

lemma str_int_twenty_digits:
  assumes "\<bar>i\<bar> < 10 ^ 20"
  shows "str_int i = Inr (int_str i)"
proof -
  have "(10::int) ^ 20 \<le> 10 ^ max_str_digits"
    by (rule power_increasing) (simp_all add: max_str_digits_def)
  with assms have "\<bar>i\<bar> < 10 ^ max_str_digits"
    by (rule less_le_trans)
  then show ?thesis
    by (rule str_int_within_limit)
qed

text \<open>
  The branch that divides by 1000000 is the one for the tag \<^verbatim>\<open>UNIX_SEC\<close>; there the
  round trip holds for every integer that \<^verbatim>\<open>str\<close> can write.
\<close>

lemma unix_sec_round_trip:
  "convert_timestamp tokyo (PyInt (v * 1000000)) ''UNIX_SEC'' =
     (case str_int v of Inl e \<Rightarrow> Inr (conversion_error e) | Inr s \<Rightarrow> Inr s)"
  by (simp add: convert_timestamp_def convert_try_def dispatch_def split: sum.split)

text \<open>
  Claim C3. Under the tag \<^verbatim>\<open>UNIX_second\<close>, which the specification names and the viewer's
  menu passes, no branch of the chain matches and the last line converts the value
  unchanged: \<^verbatim>\<open>convert_timestamp(1000000, "UNIX_second")\<close> is \<^verbatim>\<open>1000000\<close>, not \<^verbatim>\<open>1\<close>.
\<close>

theorem unix_second_tag_falls_through:
  "convert_timestamp tokyo (PyInt (v * 1000000)) ''UNIX_second'' = str_int (v * 1000000) \<and>
   convert_timestamp tokyo (PyInt 1000000) ''UNIX_second'' = Inr ''1000000'' \<and>
   convert_timestamp tokyo (PyInt 1000000) ''UNIX_SEC'' = Inr ''1''"
proof -
  have "int_str 1000000 = ''1000000''" and "int_str 1 = ''1''"
    by code_simp+
  then have "str_int 1000000 = Inr ''1000000''" and "str_int 1 = Inr ''1''"
    by (simp_all add: str_int_twenty_digits)
  then show ?thesis
    by (simp add: convert_timestamp_def convert_try_def dispatch_def)
qed

subsection \<open>Exceptions and \<^verbatim>\<open>convert_timestamp\<close>\<close>

text \<open>
  Claim C5. The function is written to return a string whatever happens, and its last
  line escapes the handler: for the integer \<open>10 ^ 4300\<close>, which has 4301 digits, and
  the tag \<^verbatim>\<open>UNIX_microsecond\<close>, no branch matches, \<^verbatim>\<open>return str(value)\<close> after the \<^verbatim>\<open>try\<close>
  block raises \<^verbatim>\<open>ValueError\<close>, and the caller gets the exception. Inside the block the
  same conversion is caught: the tag \<^verbatim>\<open>UNIX\<close> gives the diagnostic string.
\<close>

theorem convert_timestamp_raises_past_digit_limit:
  "convert_timestamp tokyo (PyInt (10 ^ 4300)) ''UNIX_microsecond'' =
     Inl (ValueError digit_limit_message) \<and>
   convert_timestamp tokyo (PyInt (10 ^ 4300)) ''UNIX'' =
     Inr (conversion_error_prefix @ digit_limit_message)"
proof -
  define big :: int where "big = 10 ^ 4300"
  have "(10::int) ^ max_str_digits \<le> \<bar>big\<bar>"
    by (simp only: big_def max_str_digits_def power_abs abs_numeral order_refl)
  then have "str_int big =
      Inl (ValueError digit_limit_message)"
    by (simp only: str_int_def if_True)
  then have "convert_timestamp tokyo (PyInt big) ''UNIX_microsecond'' =
     Inl (ValueError digit_limit_message) \<and>
   convert_timestamp tokyo (PyInt big) ''UNIX'' =
     Inr (conversion_error_prefix @ digit_limit_message)"
    by (simp add: convert_timestamp_def convert_try_def dispatch_def conversion_error_def)
  then show ?thesis
    unfolding big_def .
qed

text \<open>
  Within the digit limit nothing escapes. The parser refuses a literal of more than 4300
  digits, so an integer read from a string can always be written back.
\<close>

lemma digit_val_range: "digit_val c = Some v \<Longrightarrow> 0 \<le> v \<and> v \<le> 9"
  by (auto simp: digit_val_def split: if_splits)

lemma count_digits_Cons:
  "count_digits (c # cs) = (if digit_val c = None then 0 else 1) + count_digits cs"
  by (simp add: count_digits_def)

lemma next_digit_bound:
  assumes "0 \<le> acc" and "acc < 10 ^ k" and "0 \<le> v" and "v \<le> 9"
  shows "0 \<le> acc * 10 + v \<and> acc * 10 + v < (10::int) ^ Suc k"
proof -
  from assms(2) have "acc + 1 \<le> 10 ^ k" by simp
  then have "(acc + 1) * 10 \<le> 10 ^ k * 10" by (rule mult_right_mono) simp
  with assms show ?thesis by (simp add: algebra_simps)
qed

lemma digits_value_bound:
  "digits_value acc cs = Some n \<Longrightarrow> 0 \<le> acc \<Longrightarrow> acc < 10 ^ k \<Longrightarrow>
     0 \<le> n \<and> n < 10 ^ (k + count_digits cs)"
proof (induction acc cs arbitrary: k rule: digits_value.induct)
  case (1 acc)
  then show ?case by (simp add: count_digits_def)
next
  case (2 acc c cs)
  show ?case
  proof (cases "c = CHR ''_''")
    case True
    with "2.prems"(1) obtain d ds v where cs: "cs = d # ds" and v: "digit_val d = Some v"
      and rest: "digits_value (acc * 10 + v) ds = Some n"
      by (auto split: list.splits option.splits)
    from digit_val_range [OF v] "2.prems"(2,3)
    have step: "0 \<le> acc * 10 + v \<and> acc * 10 + v < 10 ^ Suc k"
      by (intro next_digit_bound) simp_all
    from "2.IH"(1) [OF True cs v rest] step
    have "0 \<le> n \<and> n < 10 ^ (Suc k + count_digits ds)" by blast
    moreover from True have "digit_val c = None" by (simp add: digit_val_def)
    ultimately show ?thesis using cs v by (simp add: count_digits_Cons)
  next
    case False
    with "2.prems"(1) obtain v where v: "digit_val c = Some v"
      and rest: "digits_value (acc * 10 + v) cs = Some n"
      by (auto split: option.splits)
    from digit_val_range [OF v] "2.prems"(2,3)
    have step: "0 \<le> acc * 10 + v \<and> acc * 10 + v < 10 ^ Suc k"
      by (intro next_digit_bound) simp_all
    from "2.IH"(2) [OF False v rest] step
    have "0 \<le> n \<and> n < 10 ^ (Suc k + count_digits cs)" by blast
    then show ?thesis using v by (simp add: count_digits_Cons)
  qed
qed

lemma unsigned_value_bound:
  assumes "unsigned_value s = Some n"
  shows "0 \<le> n \<and> n < 10 ^ count_digits s"
proof -
  from assms obtain c cs v where s: "s = c # cs" and v: "digit_val c = Some v"
    and rest: "digits_value v cs = Some n"
    by (auto simp: unsigned_value_def split: list.splits option.splits)
  from digit_val_range [OF v] have "0 \<le> v" "v < 10 ^ 1" by simp_all
  from digits_value_bound [OF rest this] s v show ?thesis
    by (simp add: count_digits_Cons)
qed

lemma py_int_bound:
  assumes "py_int s = Inr i"
  shows "\<bar>i\<bar> < 10 ^ max_str_digits"
proof -
  from assms obtain n t where n: "unsigned_value t = Some n" and i: "\<bar>i\<bar> = \<bar>n\<bar>"
    and t: "count_digits t \<le> count_digits (strip s)"
    and lim: "count_digits (strip s) \<le> max_str_digits"
    by (auto simp: py_int_def count_digits_Cons split: list.splits if_splits option.splits)
  from unsigned_value_bound [OF n] have pos: "0 \<le> n" and small: "n < 10 ^ count_digits t"
    by simp_all
  from t lim have "(10::int) ^ count_digits t \<le> 10 ^ max_str_digits"
    by (intro power_increasing) simp_all
  with small have "n < 10 ^ max_str_digits"
    by (rule less_le_trans)
  with pos i show ?thesis by simp
qed

lemma map_sum_Return: "map_sum id Return x \<noteq> Inr (Fall_through i)"
  by (cases x) simp_all

lemma dispatch_fall_through: "dispatch tokyo j format_type = Inr (Fall_through i) \<Longrightarrow> i = j"
  by (simp add: dispatch_def map_sum_Return split: if_splits)

lemma convert_try_not_int:
  assumes "\<forall>j. v \<noteq> PyInt j"
  shows "\<exists>s. convert_try tokyo v format_type =
           (case py_int (remove_marker s) of
              Inl (ValueError m) \<Rightarrow> Inr (Return s)
            | Inl e \<Rightarrow> Inl e
            | Inr i \<Rightarrow> dispatch tokyo i format_type)"
proof (cases v)
  case PyNone
  show ?thesis
    by (rule exI [of _ "''None''"])
      (simp add: PyNone convert_try_def del: remove_marker.simps
        split: sum.splits py_error.splits)
next
  case (PyInt j)
  with assms show ?thesis by simp
next
  case (PyStr s)
  show ?thesis
    by (rule exI [of _ s])
      (simp add: PyStr convert_try_def del: remove_marker.simps
        split: sum.splits py_error.splits)
qed

lemma convert_try_fall_through:
  assumes "convert_try tokyo v format_type = Inr (Fall_through i)"
  shows "v = PyInt i \<or> (\<exists>s. py_int s = Inr i)"
proof (cases "\<exists>j. v = PyInt j")
  case True
  then obtain j where j: "v = PyInt j" by blast
  with assms have "dispatch tokyo j format_type = Inr (Fall_through i)"
    by (simp add: convert_try_def)
  from dispatch_fall_through [OF this] j show ?thesis by simp
next
  case False
  then obtain s where "convert_try tokyo v format_type =
           (case py_int (remove_marker s) of
              Inl (ValueError m) \<Rightarrow> Inr (Return s)
            | Inl e \<Rightarrow> Inl e
            | Inr i \<Rightarrow> dispatch tokyo i format_type)"
    using convert_try_not_int by blast
  with assms obtain j where "py_int (remove_marker s) = Inr j"
    and "dispatch tokyo j format_type = Inr (Fall_through i)"
    by (auto split: sum.splits py_error.splits)
  with dispatch_fall_through show ?thesis by blast
qed

lemma convert_timestamp_returns_within_limit:
  assumes "\<forall>i. v = PyInt i \<longrightarrow> \<bar>i\<bar> < 10 ^ max_str_digits"
  shows "\<exists>s. convert_timestamp tokyo v format_type = Inr s"
proof (cases "convert_try tokyo v format_type")
  case (Inl e)
  then show ?thesis by (simp add: convert_timestamp_def)
next
  case (Inr out)
  show ?thesis
  proof (cases out)
    case (Return s)
    with Inr show ?thesis by (simp add: convert_timestamp_def)
  next
    case (Fall_through i)
    with Inr convert_try_fall_through have "v = PyInt i \<or> (\<exists>s. py_int s = Inr i)"
      by blast
    with assms py_int_bound have "\<bar>i\<bar> < 10 ^ max_str_digits" by blast
    with Inr Fall_through show ?thesis
      by (simp add: convert_timestamp_def str_int_within_limit)
  qed
qed

lemma unix_micro_to_jst_returns: "\<exists>s. unix_micro_to_jst tokyo n = Inr s"
  by (simp add: unix_micro_to_jst_def split: sum.split)

lemma convert_timestamp_diagnostic:
  "convert_try tokyo v format_type = Inl e \<Longrightarrow>
     convert_timestamp tokyo v format_type = Inr (conversion_error_prefix @ error_message e)"
  by (simp add: convert_timestamp_def conversion_error_def)

subsection \<open>The tags \<^verbatim>\<open>CHROME\<close> and \<^verbatim>\<open>FIREFOX\<close>\<close>

text \<open>
  Claim C9. The chain has a branch for \<^verbatim>\<open>WEBKIT\<close> and none for \<^verbatim>\<open>CHROME\<close> or \<^verbatim>\<open>FIREFOX\<close>,
  which the viewer passes as platform formats next to it: both fall through to the last
  line, for every integer. For the WebKit count of 2024-01-01 00:00:00 in Tokyo,
  \<^verbatim>\<open>WEBKIT\<close> gives the date and the other two give the number back.
\<close>

theorem chrome_firefox_fall_through:
  "convert_timestamp tokyo (PyInt v) ''CHROME'' = str_int v \<and>
   convert_timestamp tokyo (PyInt v) ''FIREFOX'' = str_int v \<and>
   convert_timestamp japan_standard_time (PyInt 13348508400000000) ''WEBKIT'' =
     Inr ''2024-01-01 00:00:00'' \<and>
   convert_timestamp japan_standard_time (PyInt 13348508400000000) ''CHROME'' =
     Inr ''13348508400000000'' \<and>
   convert_timestamp japan_standard_time (PyInt 13348508400000000) ''FIREFOX'' =
     Inr ''13348508400000000''"
proof -
  have "convert_timestamp japan_standard_time (PyInt 13348508400000000) ''WEBKIT'' =
     Inr ''2024-01-01 00:00:00''"
    by code_simp
  moreover have "int_str 13348508400000000 = ''13348508400000000''"
    by code_simp
  then have "str_int 13348508400000000 = Inr ''13348508400000000''"
    by (simp add: str_int_twenty_digits)
  ultimately show ?thesis
    by (simp add: convert_timestamp_def convert_try_def dispatch_def)
qed

end
